theory Spec2Isabelle
  imports Complex_Main "HOL-Library.Monad_Syntax"
begin

section \<open>The study strategy simulator\<close>

text \<open>
  A shallow embedding of \<^verbatim>\<open>study_simulator_test.py\<close>: the rule-based scorer
  \<^verbatim>\<open>simulate\<close>, the comparator \<^verbatim>\<open>compare\<close> and the cache update of the
  menu loop in \<^verbatim>\<open>main\<close>.

  Numbers. Python's \<^verbatim>\<open>int\<close> is unbounded and is modelled by \<open>int\<close>. Python's
  \<^verbatim>\<open>float\<close> is modelled by \<open>real\<close>: every float operation is read as the exact
  real operation, and a decimal literal such as \<^verbatim>\<open>0.06\<close> as the decimal it is
  written as. What is kept of the floating-point range is the one way float code raises
  here: \<^verbatim>\<open>math.exp\<close> and the conversion of an \<^verbatim>\<open>int\<close> operand to \<^verbatim>\<open>float\<close>
  raise \<^verbatim>\<open>OverflowError\<close> when the result is beyond the largest finite double.
  Rounding error, infinities and NaN are not modelled.
  A function that can raise returns an \<open>option\<close>; \<open>None\<close> is the raised exception.
\<close>

subsection \<open>Data model\<close>

text \<open>
  The dataclasses \<^verbatim>\<open>Strategy\<close> and \<^verbatim>\<open>Result\<close>. The fields \<^verbatim>\<open>method\<close> and \<^verbatim>\<open>notes\<close>
  are written \<open>method'\<close> and \<open>notes'\<close>, the plain words being reserved.
\<close>

record Strategy =
  name :: string
  method' :: string
  session_minutes :: int
  sessions_per_week :: int
  environment :: string
  break_style :: string
  course_difficulty :: int
  distraction_risk :: int

record Result =
  effectiveness :: real
  sustainability :: real
  efficiency :: real
  burnout_risk :: real
  predicted_improvement :: real
  notes' :: "string list"

subsection \<open>Weight tables\<close>

definition METHOD_WEIGHTS :: "(string \<times> real) list" where
  "METHOD_WEIGHTS =
     [(''practice_problems'', 1.00),
      (''flashcards'', 0.90),
      (''teaching_someone'', 0.95),
      (''summarizing'', 0.70),
      (''rereading'', 0.45),
      (''highlighting'', 0.40),
      (''group_study'', 0.75)]"

definition ENVIRONMENT_WEIGHTS :: "(string \<times> real) list" where
  "ENVIRONMENT_WEIGHTS =
     [(''library'', 1.00),
      (''quiet_room'', 0.95),
      (''coffee_shop'', 0.85),
      (''dorm_room'', 0.80)]"

definition BREAK_WEIGHTS :: "(string \<times> real) list" where
  "BREAK_WEIGHTS =
     [(''pomodoro'', 1.00),
      (''structured'', 0.92),
      (''none'', 0.75),
      (''random'', 0.80)]"

text \<open>\<^verbatim>\<open>d.get(key, default)\<close> on a dictionary written as its list of items.\<close>

definition dict_get :: "('k \<times> 'v) list \<Rightarrow> 'k \<Rightarrow> 'v \<Rightarrow> 'v" where
  "dict_get d k dflt = (case map_of d k of None \<Rightarrow> dflt | Some v \<Rightarrow> v)"

subsection \<open>Numeric helpers\<close>

text \<open>
  A real number is out of the double range when rounding it to the nearest double
  gives an infinity: from \<open>2^1024 - 2^970\<close> on, in absolute value.
\<close>

definition float_overflow :: "real \<Rightarrow> bool" where
  "float_overflow y = (2 ^ 1024 - 2 ^ 970 \<le> \<bar>y\<bar>)"

text \<open>An \<^verbatim>\<open>int\<close> operand of a float operation: \<^verbatim>\<open>OverflowError\<close> when too large.\<close>

definition py_float :: "int \<Rightarrow> real option" where
  "py_float n = (if float_overflow (of_int n) then None else Some (of_int n))"

text \<open>\<^verbatim>\<open>math.exp\<close>: \<^verbatim>\<open>OverflowError\<close> (math range error) when the result is too large.\<close>

definition math_exp :: "real \<Rightarrow> real option" where
  "math_exp x = (if float_overflow (exp x) then None else Some (exp x))"

definition clamp :: "real \<Rightarrow> real \<Rightarrow> real \<Rightarrow> real" where
  "clamp x lo hi = max lo (min hi x)"

definition logistic :: "real \<Rightarrow> real option" where
  "logistic x = do { e \<leftarrow> math_exp (- x); Some (1.0 / (1.0 + e)) }"

text \<open>
  The builtin \<^verbatim>\<open>round(x, ndigits)\<close> on a float: the nearest multiple of
  \<open>10^(-ndigits)\<close>, a tie going to the even one.
\<close>

definition py_round :: "real \<Rightarrow> nat \<Rightarrow> real" where
  "py_round x ndigits =
     (let scaled = x * 10 ^ ndigits;
          lower = \<lfloor>scaled\<rfloor>;
          frac = scaled - of_int lower;
          nearest = (if frac < 1 / 2 then lower
                     else if 1 / 2 < frac then lower + 1
                     else if even lower then lower else lower + 1)
      in of_int nearest / 10 ^ ndigits)"

subsection \<open>The scorer\<close>

definition simulate :: "Strategy \<Rightarrow> Result option" where
  "simulate strategy =
     (let method_w = dict_get METHOD_WEIGHTS (method' strategy) 0.60;
          env_w = dict_get ENVIRONMENT_WEIGHTS (environment strategy) 0.85;
          break_w = dict_get BREAK_WEIGHTS (break_style strategy) 0.85;
          total_minutes = session_minutes strategy * sessions_per_week strategy;
          (session_focus, notes0) =
            (if session_minutes strategy \<le> 60 then (1.0, [])
             else if session_minutes strategy \<le> 90 then
               (0.88, [''Session length is long; focus may drop after ~60 minutes.''])
             else
               (0.75, [''Very long sessions increase diminishing returns and fatigue.'']))
      in do {
        risk_above_1 \<leftarrow> py_float (distraction_risk strategy - 1);
        let distraction_penalty = 1.0 - risk_above_1 * 0.06;
        difficulty_above_1 \<leftarrow> py_float (course_difficulty strategy - 1);
        let difficulty_penalty = 1.0 - difficulty_above_1 * 0.05;
        let base_eff = 85.0 * method_w * env_w * break_w * session_focus
                         * distraction_penalty * difficulty_penalty;
        let effectiveness' = clamp base_eff 0 100;
        minutes \<leftarrow> py_float total_minutes;
        let time_load = minutes / 300.0;
        difficulty_above_3 \<leftarrow> py_float (course_difficulty strategy - 3);
        let burnout_raw = (time_load - 1.0) + (1.0 - break_w) + difficulty_above_3 * 0.15;
        curve \<leftarrow> logistic burnout_raw;
        let burnout_risk' = clamp (100.0 * curve) 0 100;
        let sustainability' = clamp (100.0 - burnout_risk' + (break_w - 0.8) * 10.0) 0 100;
        let hours = minutes / 60.0;
        let efficiency' =
          (if hours \<le> 0 then 0.0
           else let diminishing = 1.0 / (1.0 + 0.12 * max 0.0 (hours - 5.0))
                in clamp ((effectiveness' * diminishing) / (hours / 5.0)) 0 100);
        decay \<leftarrow> math_exp (- hours / 4.5);
        let time_gain = 12.0 * (1.0 - decay);
        let method_bonus = 3.0 * (method_w - 0.6);
        let penalty = 4.0 * (burnout_risk' / 100.0);
        let predicted_improvement' = clamp (time_gain + method_bonus - penalty) 0 15;
        let notes1 = notes0
          @ (if method' strategy \<in> {''rereading'', ''highlighting''} then
               [''Consider adding active recall (practice problems or flashcards) for stronger retention.'']
             else [])
          @ (if break_style strategy \<in> {''none'', ''random''} then
               [''Structured breaks can improve endurance and reduce burnout risk.'']
             else [])
          @ (if environment strategy \<in> {''dorm_room'', ''coffee_shop''}
                \<and> distraction_risk strategy \<ge> 4 then
               [''High distraction risk: switching to a quieter environment may help.'']
             else [])
          @ (if sessions_per_week strategy \<le> 2 then
               [''Low weekly frequency: shorter, more frequent sessions often improve consistency.'']
             else [])
          @ (if total_minutes > 600 then
               [''High weekly study load: consider reducing duration or adding recovery time to avoid burnout.'']
             else []);
        Some \<lparr>effectiveness = py_round effectiveness' 1,
              sustainability = py_round sustainability' 1,
              efficiency = py_round efficiency' 1,
              burnout_risk = py_round burnout_risk' 1,
              predicted_improvement = py_round predicted_improvement' 1,
              notes' = notes1\<rparr>
      })"

text \<open>
  The ranges \<^verbatim>\<open>create_strategy\<close> enforces through \<^verbatim>\<open>ask_int\<close> before it builds a
  \<^verbatim>\<open>Strategy\<close>: minutes 10-180, sessions 1-14, difficulty 1-5, distraction 1-5.
\<close>

definition valid_scenario :: "Strategy \<Rightarrow> bool" where
  "valid_scenario s \<longleftrightarrow>
     10 \<le> session_minutes s \<and> session_minutes s \<le> 180 \<and>
     1 \<le> sessions_per_week s \<and> sessions_per_week s \<le> 14 \<and>
     1 \<le> course_difficulty s \<and> course_difficulty s \<le> 5 \<and>
     1 \<le> distraction_risk s \<and> distraction_risk s \<le> 5"

text \<open>
  The effectiveness as the specification writes it (steps 3 to 6 and 12 of its
  algorithm), for given method, environment and break weights: the session-focus
  factor, the two penalties, the clamp to \<open>[0, 100]\<close> and the rounding to one decimal.
  It is compared with what \<open>simulate\<close> returns.
\<close>

definition effectiveness_formula :: "real \<Rightarrow> real \<Rightarrow> real \<Rightarrow> Strategy \<Rightarrow> real" where
  "effectiveness_formula method_w env_w break_w s =
     py_round (clamp (85.0 * method_w * env_w * break_w
                        * (if session_minutes s \<le> 60 then 1.0
                           else if session_minutes s \<le> 90 then 0.88 else 0.75)
                        * (1.0 - of_int (distraction_risk s - 1) * 0.06)
                        * (1.0 - of_int (course_difficulty s - 1) * 0.05)) 0 100) 1"

subsection \<open>Display of the notes\<close>

text \<open>
  Of \<^verbatim>\<open>print_result\<close>, the lines its loop \<^verbatim>\<open>for n in result.notes[:6]\<close> prints.
\<close>

definition print_result_notes :: "Result \<Rightarrow> string list" where
  "print_result_notes result = map (\<lambda>n. ''  - '' @ n) (take 6 (notes' result))"

subsection \<open>The comparator\<close>

text \<open>
  The builtins \<^verbatim>\<open>max\<close> and \<^verbatim>\<open>min\<close> with a \<^verbatim>\<open>key\<close>, as CPython's \<^verbatim>\<open>min_max\<close> runs
  them: the first item is the candidate, a later item replaces it only when its key
  compares strictly better (\<^verbatim>\<open>>\<close> for max, \<^verbatim>\<open><\<close> for min); an empty sequence raises
  \<^verbatim>\<open>ValueError\<close>.
\<close>

definition min_max :: "(real \<Rightarrow> real \<Rightarrow> bool) \<Rightarrow> 'a list \<Rightarrow> ('a \<Rightarrow> real) \<Rightarrow> 'a option" where
  "min_max better xs key =
     (case xs of
        [] \<Rightarrow> None
      | first # rest \<Rightarrow>
          Some (fold (\<lambda>item best. if better (key item) (key best) then item else best)
                  rest first))"

definition py_max :: "'a list \<Rightarrow> ('a \<Rightarrow> real) \<Rightarrow> 'a option" where
  "py_max xs key = min_max (\<lambda>v best. v > best) xs key"

definition py_min :: "'a list \<Rightarrow> ('a \<Rightarrow> real) \<Rightarrow> 'a option" where
  "py_min xs key = min_max (\<lambda>v best. v < best) xs key"

text \<open>
  \<^verbatim>\<open>compare\<close> returns nothing; what it tells the user goes through \<^verbatim>\<open>say\<close>. The
  model returns the messages passed to \<^verbatim>\<open>say\<close>, in order. The table it prints in
  between (banner, header and one formatted row per entry) is not part of the model.
\<close>

definition compare :: "(Strategy \<times> Result) list \<Rightarrow> string list option" where
  "compare results =
     (if length results < 2 then
        Some [''Create at least two scenarios to compare.'']
      else do {
        best_eff \<leftarrow> py_max results (\<lambda>x. effectiveness (snd x));
        best_sus \<leftarrow> py_max results (\<lambda>x. sustainability (snd x));
        best_efy \<leftarrow> py_max results (\<lambda>x. efficiency (snd x));
        lowest_burn \<leftarrow> py_min results (\<lambda>x. burnout_risk (snd x));
        Some [''Highest effectiveness: '' @ name (fst best_eff),
              ''Best sustainability: '' @ name (fst best_sus),
              ''Best efficiency: '' @ name (fst best_efy),
              ''Lowest burnout risk: '' @ name (fst lowest_burn)]
      })"

text \<open>
  Index \<open>i\<close> is the lowest index at which \<open>key\<close> is largest over \<open>xs\<close>: nothing in the
  list is larger, and everything before \<open>i\<close> is strictly smaller. The second predicate
  is the same for the smallest key.
\<close>

definition first_max_at :: "('a \<Rightarrow> real) \<Rightarrow> 'a list \<Rightarrow> nat \<Rightarrow> bool" where
  "first_max_at key xs i \<longleftrightarrow>
     i < length xs \<and> (\<forall>j < length xs. key (xs ! j) \<le> key (xs ! i))
       \<and> (\<forall>j < i. key (xs ! j) < key (xs ! i))"

definition first_min_at :: "('a \<Rightarrow> real) \<Rightarrow> 'a list \<Rightarrow> nat \<Rightarrow> bool" where
  "first_min_at key xs i \<longleftrightarrow>
     i < length xs \<and> (\<forall>j < length xs. key (xs ! i) \<le> key (xs ! j))
       \<and> (\<forall>j < i. key (xs ! i) < key (xs ! j))"

subsection \<open>The menu loop: running a simulation\<close>

text \<open>The two lists \<^verbatim>\<open>main\<close> keeps between menu choices.\<close>

record session =
  scenarios :: "Strategy list"
  results_cache :: "(Strategy \<times> Result) list"

text \<open>\<^verbatim>\<open>xs[i]\<close>: a negative index counts from the end, an index out of range raises.\<close>

definition getitem :: "'a list \<Rightarrow> int \<Rightarrow> 'a option" where
  "getitem xs i =
     (if 0 \<le> i \<and> i < int (length xs) then Some (xs ! nat i)
      else if - int (length xs) \<le> i \<and> i < 0 then Some (xs ! nat (int (length xs) + i))
      else None)"

text \<open>
  Menu choice 2. \<open>number\<close> is what \<^verbatim>\<open>ask_int("Which scenario number? ", 1, len(scenarios))\<close>
  returned. With no scenario yet the loop continues with nothing changed; otherwise the
  chosen scenario is scored, the cached entries of the same name are dropped and the
  new pair is appended.
\<close>

definition run_simulation :: "session \<Rightarrow> int \<Rightarrow> session option" where
  "run_simulation st number =
     (if scenarios st = [] then Some st
      else do {
        s \<leftarrow> getitem (scenarios st) (number - 1);
        r \<leftarrow> simulate s;
        Some (st\<lparr>results_cache :=
                    [(ss, rr) \<leftarrow> results_cache st. name ss \<noteq> name s] @ [(s, r)]\<rparr>)
      })"

subsection \<open>Sample data\<close>

text \<open>A scenario and a result with given name and scores, for the concrete instances below.\<close>

definition sample_plan :: "string \<Rightarrow> Strategy" where
  "sample_plan n =
     \<lparr>name = n, method' = ''flashcards'', session_minutes = 90, sessions_per_week = 7,
      environment = ''dorm_room'', break_style = ''none'', course_difficulty = 3,
      distraction_risk = 4\<rparr>"

definition sample_scores :: "real \<Rightarrow> real \<Rightarrow> real \<Rightarrow> real \<Rightarrow> Result" where
  "sample_scores eff sus efy burn =
     \<lparr>effectiveness = eff, sustainability = sus, efficiency = efy, burnout_risk = burn,
      predicted_improvement = 5, notes' = []\<rparr>"

text \<open>
  A scenario outside the documented ranges (400-minute sessions) on which every
  note rule fires.
\<close>

definition cram_plan :: Strategy where
  "cram_plan =
     \<lparr>name = ''Cram'', method' = ''rereading'', session_minutes = 400, sessions_per_week = 2,
      environment = ''dorm_room'', break_style = ''none'', course_difficulty = 5,
      distraction_risk = 5\<rparr>"

section \<open>Supporting lemmas\<close>

subsection \<open>The numeric helpers return on moderate arguments\<close>

lemma not_float_overflow: "\<bar>y\<bar> \<le> 10 ^ 300 \<Longrightarrow> \<not> float_overflow y"
  unfolding float_overflow_def by simp

lemma py_float_small:
  assumes "\<bar>n\<bar> \<le> 10 ^ 9"
  shows "py_float n = Some (of_int n)"
proof -
  from assms have "\<bar>real_of_int n\<bar> \<le> 10 ^ 9"
    by (metis of_int_abs of_int_le_iff of_int_numeral of_int_power)
  also have "(10::real) ^ 9 \<le> 10 ^ 300"
    by simp
  finally show ?thesis
    by (simp add: py_float_def not_float_overflow)
qed

lemma exp_le_power_3:
  assumes "x \<le> real n"
  shows "exp x \<le> 3 ^ n"
proof -
  from assms have "exp x \<le> exp (real n * 1)"
    by simp
  also have "\<dots> = exp 1 ^ n"
    by (rule exp_of_nat_mult)
  also have "\<dots> \<le> 3 ^ n"
    by (intro power_mono exp_le) simp
  finally show ?thesis .
qed

lemma math_exp_small:
  assumes "x \<le> 100"
  shows "math_exp x = Some (exp x)"
proof -
  from assms have "exp x \<le> 3 ^ 100"
    using exp_le_power_3 [of x 100] by simp
  also have "(3::real) ^ 100 \<le> 10 ^ 300"
    by simp
  finally have "\<bar>exp x\<bar> \<le> 10 ^ 300"
    by simp
  then show ?thesis
    by (simp add: math_exp_def not_float_overflow)
qed

lemma logistic_small: "- 100 \<le> x \<Longrightarrow> logistic x = Some (1 / (1 + exp (- x)))"
  by (simp add: logistic_def math_exp_small)

lemma py_float_Some:
  "py_float n = Some x \<longleftrightarrow> \<not> float_overflow (of_int n) \<and> x = of_int n"
  by (auto simp: py_float_def)

lemma math_exp_Some:
  "math_exp a = Some y \<longleftrightarrow> \<not> float_overflow (exp a) \<and> y = exp a"
  by (auto simp: math_exp_def)

lemma logistic_Some:
  "logistic a = Some y \<longleftrightarrow> \<not> float_overflow (exp (- a)) \<and> y = 1 / (1 + exp (- a))"
  by (auto simp: logistic_def bind_eq_Some_conv math_exp_Some)

subsection \<open>Every weight, looked up or defaulted, is a fraction of one\<close>



lemma break_w_range:
  "3 / 4 \<le> dict_get BREAK_WEIGHTS k 0.85 \<and> dict_get BREAK_WEIGHTS k 0.85 \<le> 1"
  by (simp add: dict_get_def BREAK_WEIGHTS_def)

subsection \<open>Clamping and rounding\<close>

lemma clamp_range: "lo \<le> hi \<Longrightarrow> lo \<le> clamp x lo hi \<and> clamp x lo hi \<le> hi"
  by (simp add: clamp_def)


text \<open>
  Rounding to the nearest multiple, ties to even, is monotone: two arguments in the
  same unit interval are told apart by their fractional parts, two arguments in
  different ones by their floors.
\<close>

lemma py_round_mono:
  assumes "x \<le> y"
  shows "py_round x n \<le> py_round y n"
proof -
  define a where "a = x * 10 ^ n"
  define b where "b = y * 10 ^ n"
  define rnd :: "real \<Rightarrow> int" where
    "rnd = (\<lambda>z. if z - of_int \<lfloor>z\<rfloor> < 1 / 2 then \<lfloor>z\<rfloor>
                else if 1 / 2 < z - of_int \<lfloor>z\<rfloor> then \<lfloor>z\<rfloor> + 1
                else if even \<lfloor>z\<rfloor> then \<lfloor>z\<rfloor> else \<lfloor>z\<rfloor> + 1)"
  have ab: "a \<le> b"
    using assms by (simp add: a_def b_def)
  have lower: "\<lfloor>z\<rfloor> \<le> rnd z" and upper: "rnd z \<le> \<lfloor>z\<rfloor> + 1" for z
    by (simp_all add: rnd_def)
  have "rnd a \<le> rnd b"
  proof (cases "\<lfloor>a\<rfloor> = \<lfloor>b\<rfloor>")
    case True
    with ab have "a - of_int \<lfloor>a\<rfloor> \<le> b - of_int \<lfloor>b\<rfloor>"
      by simp
    with True show ?thesis
      by (simp add: rnd_def)
  next
    case False
    with ab have "\<lfloor>a\<rfloor> + 1 \<le> \<lfloor>b\<rfloor>"
      using floor_mono [of a b] by linarith
    with upper [of a] lower [of b] show ?thesis
      by linarith
  qed
  then have "real_of_int (rnd a) / 10 ^ n \<le> real_of_int (rnd b) / 10 ^ n"
    by (simp add: divide_right_mono)
  then show ?thesis
    by (simp add: py_round_def Let_def rnd_def a_def b_def)
qed

lemma py_round_exact: "py_round (of_int k / 10 ^ n) n = of_int k / 10 ^ n"
  by (simp add: py_round_def Let_def)

lemma py_round_1_bounds:
  assumes "of_int lo / 10 \<le> x" and "x \<le> of_int hi / 10"
  shows "of_int lo / 10 \<le> py_round x (Suc 0) \<and> py_round x (Suc 0) \<le> of_int hi / 10"
  using py_round_mono [OF assms(1), of "Suc 0"] py_round_mono [OF assms(2), of "Suc 0"]
    py_round_exact [of lo "Suc 0"] py_round_exact [of hi "Suc 0"]
  by simp

lemma py_round_clamp_100:
  "0 \<le> py_round (clamp x 0 100) (Suc 0)" "py_round (clamp x 0 100) (Suc 0) \<le> 100"
  using py_round_1_bounds [of 0 "clamp x 0 100" 1000] clamp_range [of 0 100 x] by simp_all

lemma py_round_clamp_15:
  "0 \<le> py_round (clamp x 0 15) (Suc 0)" "py_round (clamp x 0 15) (Suc 0) \<le> 15"
  using py_round_1_bounds [of 0 "clamp x 0 15" 150] clamp_range [of 0 15 x] by simp_all

lemma py_round_zero: "py_round 0 n = 0"
  by (simp add: py_round_def)

subsection \<open>What a returned result holds\<close>

lemma simulate_SomeD:
  assumes "simulate s = Some r"
  shows "effectiveness r =
           py_round (clamp (85.0 * dict_get METHOD_WEIGHTS (method' s) 0.60
                              * dict_get ENVIRONMENT_WEIGHTS (environment s) 0.85
                              * dict_get BREAK_WEIGHTS (break_style s) 0.85
                              * (if session_minutes s \<le> 60 then 1.0
                                 else if session_minutes s \<le> 90 then 0.88 else 0.75)
                              * (1.0 - of_int (distraction_risk s - 1) * 0.06)
                              * (1.0 - of_int (course_difficulty s - 1) * 0.05)) 0 100) 1
     \<and> notes' r =
          (if session_minutes s \<le> 60 then []
           else if session_minutes s \<le> 90 then
             [''Session length is long; focus may drop after ~60 minutes.'']
           else [''Very long sessions increase diminishing returns and fatigue.''])
          @ (if method' s \<in> {''rereading'', ''highlighting''} then
               [''Consider adding active recall (practice problems or flashcards) for stronger retention.'']
             else [])
          @ (if break_style s \<in> {''none'', ''random''} then
               [''Structured breaks can improve endurance and reduce burnout risk.'']
             else [])
          @ (if environment s \<in> {''dorm_room'', ''coffee_shop''}
                \<and> distraction_risk s \<ge> 4 then
               [''High distraction risk: switching to a quieter environment may help.'']
             else [])
          @ (if sessions_per_week s \<le> 2 then
               [''Low weekly frequency: shorter, more frequent sessions often improve consistency.'']
             else [])
          @ (if session_minutes s * sessions_per_week s > 600 then
               [''High weekly study load: consider reducing duration or adding recovery time to avoid burnout.'']
             else [])
    \<and> 0 \<le> sustainability r \<and> sustainability r \<le> 100
    \<and> 0 \<le> efficiency r \<and> efficiency r \<le> 100
    \<and> 0 \<le> burnout_risk r \<and> burnout_risk r \<le> 100
    \<and> 0 \<le> predicted_improvement r \<and> predicted_improvement r \<le> 15"
proof -
  obtain e su ef b p n where r: "r = \<lparr>effectiveness = e, sustainability = su, efficiency = ef,
      burnout_risk = b, predicted_improvement = p, notes' = n\<rparr>"
    by (cases r) simp
  note facts = bind_eq_Some_conv py_float_Some math_exp_Some logistic_Some
    py_round_clamp_100 py_round_clamp_15 py_round_zero
  consider (short) "session_minutes s \<le> 60"
    | (long) "\<not> session_minutes s \<le> 60" "session_minutes s \<le> 90"
    | (very_long) "\<not> session_minutes s \<le> 60" "\<not> session_minutes s \<le> 90"
    by blast
  then show ?thesis
  proof cases
    case short
    with assms show ?thesis
      unfolding simulate_def Let_def r by (auto simp: facts)
  next
    case long
    with assms show ?thesis
      unfolding simulate_def Let_def r by (auto simp: facts)
  next
    case very_long
    with assms show ?thesis
      unfolding simulate_def Let_def r by (auto simp: facts)
  qed
qed

lemma simulate_effectiveness:
  assumes "simulate s = Some r"
  shows "effectiveness r =
     effectiveness_formula (dict_get METHOD_WEIGHTS (method' s) 0.60)
       (dict_get ENVIRONMENT_WEIGHTS (environment s) 0.85)
       (dict_get BREAK_WEIGHTS (break_style s) 0.85) s"
  using simulate_SomeD [OF assms] by (simp only: effectiveness_formula_def)

lemma simulate_ranges:
  assumes "simulate s = Some r"
  shows "0 \<le> effectiveness r \<and> effectiveness r \<le> 100
    \<and> 0 \<le> sustainability r \<and> sustainability r \<le> 100
    \<and> 0 \<le> efficiency r \<and> efficiency r \<le> 100
    \<and> 0 \<le> burnout_risk r \<and> burnout_risk r \<le> 100
    \<and> 0 \<le> predicted_improvement r \<and> predicted_improvement r \<le> 15"
  using simulate_SomeD [OF assms] by (simp add: py_round_clamp_100)

subsection \<open>When the scorer returns\<close>

text \<open>
  No operation overflows when the weekly minutes are not negative and the numbers
  are of moderate size; the documented ranges are well inside.
\<close>

lemma simulate_returns:
  assumes dr: "\<bar>distraction_risk s\<bar> \<le> 1000"
    and cd: "\<bar>course_difficulty s\<bar> \<le> 100"
    and tm: "0 \<le> session_minutes s * sessions_per_week s"
      "session_minutes s * sessions_per_week s \<le> 10 ^ 6"
  shows "\<exists>r. simulate s = Some r"
proof -
  define bw where "bw = dict_get BREAK_WEIGHTS (break_style s) 0.85"
  define M where "M = real_of_int (session_minutes s * sessions_per_week s)"
  define C where "C = real_of_int (course_difficulty s - 3)"
  have f1: "py_float (distraction_risk s - 1) = Some (of_int (distraction_risk s - 1))"
    using dr by (intro py_float_small) simp
  have f2: "py_float (course_difficulty s - 1) = Some (of_int (course_difficulty s - 1))"
    using cd by (intro py_float_small) simp
  have f3: "py_float (course_difficulty s - 3) = Some (of_int (course_difficulty s - 3))"
    using cd by (intro py_float_small) simp
  have f4: "py_float (session_minutes s * sessions_per_week s)
              = Some (of_int (session_minutes s * sessions_per_week s))"
    using tm by (intro py_float_small) simp
  have M: "0 \<le> M"
    unfolding M_def using tm(1) by linarith
  have C: "- 103 \<le> C"
    unfolding C_def using cd by linarith
  have bw: "bw \<le> 1"
    using break_w_range [of "break_style s"] by (simp add: bw_def)
  have "- 100 \<le> (M / 300.0 - 1.0) + (1.0 - bw) + C * 0.15"
    using M C bw by simp
  then have f5: "logistic ((M / 300.0 - 1.0) + (1.0 - bw) + C * 0.15)
      = Some (1 / (1 + exp (- ((M / 300.0 - 1.0) + (1.0 - bw) + C * 0.15))))"
    by (rule logistic_small)
  have "- (M / 60.0) / 4.5 \<le> 100"
    using M by simp
  then have f6: "math_exp (- (M / 60.0) / 4.5) = Some (exp (- (M / 60.0) / 4.5))"
    by (rule math_exp_small)
  show ?thesis
    unfolding simulate_def Let_def
    by (simp only: f1 f2 f3 f4 f5 [unfolded bw_def M_def C_def] f6 [unfolded M_def]
        bind.bind_lunit split: prod.split) simp
qed

lemma valid_total_minutes:
  assumes "valid_scenario s"
  shows "10 \<le> session_minutes s * sessions_per_week s"
    and "session_minutes s * sessions_per_week s \<le> 2520"
proof -
  from assms have b: "10 \<le> session_minutes s" "session_minutes s \<le> 180"
      "1 \<le> sessions_per_week s" "sessions_per_week s \<le> 14"
    by (simp_all add: valid_scenario_def)
  from mult_mono [of 10 "session_minutes s" 1 "sessions_per_week s"] b
  show "10 \<le> session_minutes s * sessions_per_week s"
    by simp
  from mult_mono [of "session_minutes s" 180 "sessions_per_week s" 14] b
  show "session_minutes s * sessions_per_week s \<le> 2520"
    by simp
qed

lemma simulate_valid_returns:
  assumes "valid_scenario s"
  shows "\<exists>r. simulate s = Some r"
proof (rule simulate_returns)
  from assms show "\<bar>distraction_risk s\<bar> \<le> 1000" and "\<bar>course_difficulty s\<bar> \<le> 100"
    by (simp_all add: valid_scenario_def)
  from valid_total_minutes [OF assms]
  show "0 \<le> session_minutes s * sessions_per_week s"
    and "session_minutes s * sessions_per_week s \<le> 10 ^ 6"
    by simp_all
qed

lemma sample_plan_valid: "valid_scenario (sample_plan n)"
  by (simp add: valid_scenario_def sample_plan_def)

lemma cram_plan_returns: "\<exists>r. simulate cram_plan = Some r"
  by (rule simulate_returns) (simp_all add: cram_plan_def)

section \<open>Properties of the scorer\<close>

text \<open>
  Claim C1. For every scenario whose numeric fields are in the documented ranges
  (session minutes 10 to 180, sessions per week 1 to 14, course difficulty and
  distraction risk 1 to 5), \<open>simulate\<close> returns a result, and in it effectiveness,
  sustainability, efficiency and burnout risk lie in \<open>[0, 100]\<close> and the predicted
  improvement in \<open>[0, 15]\<close>; these are the fields as returned, after the rounding to
  one decimal.
\<close>

theorem simulate_fields_in_range:
  assumes "valid_scenario s"
  shows "\<exists>r. simulate s = Some r
    \<and> 0 \<le> effectiveness r \<and> effectiveness r \<le> 100
    \<and> 0 \<le> sustainability r \<and> sustainability r \<le> 100
    \<and> 0 \<le> efficiency r \<and> efficiency r \<le> 100
    \<and> 0 \<le> burnout_risk r \<and> burnout_risk r \<le> 100
    \<and> 0 \<le> predicted_improvement r \<and> predicted_improvement r \<le> 15"
proof -
  from simulate_valid_returns [OF assms] obtain r where r: "simulate s = Some r" ..
  from simulate_ranges [OF r] r show ?thesis
    by blast
qed

theorem simulate_fields_in_range_witness:
  "valid_scenario (sample_plan ''Exam Week Plan A'')
   \<and> (\<exists>r. simulate (sample_plan ''Exam Week Plan A'') = Some r
    \<and> 0 \<le> effectiveness r \<and> effectiveness r \<le> 100
    \<and> 0 \<le> sustainability r \<and> sustainability r \<le> 100
    \<and> 0 \<le> efficiency r \<and> efficiency r \<le> 100
    \<and> 0 \<le> burnout_risk r \<and> burnout_risk r \<le> 100
    \<and> 0 \<le> predicted_improvement r \<and> predicted_improvement r \<le> 15)"
proof -
  have v: "valid_scenario (sample_plan ''Exam Week Plan A'')"
    by (simp add: valid_scenario_def sample_plan_def)
  from v simulate_fields_in_range [OF v] show ?thesis
    by (rule conjI)
qed

text \<open>
  Claim C2, as the specification states it: with practice problems in the library,
  pomodoro breaks, 45-minute sessions four times a week, difficulty 3 and distraction
  risk 2, the effectiveness returned is 78.1. It is not: the factors are
  \<open>85 * 1 * 1 * 1 * 1 * 0.94 * 0.90 = 71.91\<close>.
\<close>

theorem spec_example_not_78_1:
  "map_option effectiveness
     (simulate \<lparr>name = ''Plan A'', method' = ''practice_problems'', session_minutes = 45,
        sessions_per_week = 4, environment = ''library'', break_style = ''pomodoro'',
        course_difficulty = 3, distraction_risk = 2\<rparr>) \<noteq> Some 78.1"
proof -
  define s where "s = \<lparr>name = ''Plan A'', method' = ''practice_problems'', session_minutes = 45,
        sessions_per_week = 4, environment = ''library'', break_style = ''pomodoro'',
        course_difficulty = 3, distraction_risk = 2\<rparr>"
  have "valid_scenario s"
    by (simp add: valid_scenario_def s_def)
  then obtain r where r: "simulate s = Some r"
    using simulate_valid_returns by blast
  have "effectiveness r = 71.9"
    unfolding simulate_effectiveness [OF r]
    by (simp add: effectiveness_formula_def s_def dict_get_def METHOD_WEIGHTS_def
        ENVIRONMENT_WEIGHTS_def BREAK_WEIGHTS_def clamp_def py_round_def Let_def)
  with r show ?thesis
    by (simp add: s_def)
qed

text \<open>
  Claim C2, amended: for that scenario, whatever its name, \<open>simulate\<close> returns a
  result whose effectiveness is 71.9, the value of the documented formula rounded to
  one decimal.
\<close>

theorem spec_example_effectiveness:
  "map_option effectiveness
     (simulate \<lparr>name = n, method' = ''practice_problems'', session_minutes = 45,
        sessions_per_week = 4, environment = ''library'', break_style = ''pomodoro'',
        course_difficulty = 3, distraction_risk = 2\<rparr>) = Some 71.9"
proof -
  define s where "s = \<lparr>name = n, method' = ''practice_problems'', session_minutes = 45,
        sessions_per_week = 4, environment = ''library'', break_style = ''pomodoro'',
        course_difficulty = 3, distraction_risk = 2\<rparr>"
  have "valid_scenario s"
    by (simp add: valid_scenario_def s_def)
  then obtain r where r: "simulate s = Some r"
    using simulate_valid_returns by blast
  have "effectiveness r = 71.9"
    unfolding simulate_effectiveness [OF r]
    by (simp add: effectiveness_formula_def s_def dict_get_def METHOD_WEIGHTS_def
        ENVIRONMENT_WEIGHTS_def BREAK_WEIGHTS_def clamp_def py_round_def Let_def)
  with r show ?thesis
    by (simp add: s_def)
qed





text \<open>
  Claim C9. Whatever the scenario, in range or not, a result \<open>simulate\<close> returns
  carries at most six notes (one for the session length at most, and one per rule of
  the five), so the first six that \<open>print_result\<close> shows are all of them.
\<close>

theorem notes_at_most_six:
  assumes "simulate s = Some r"
  shows "length (notes' r) \<le> 6 \<and> print_result_notes r = map (\<lambda>n. ''  - '' @ n) (notes' r)"
proof -
  have "length (notes' r) \<le> 6"
    using simulate_SomeD [OF assms] by simp
  then show ?thesis
    by (simp add: print_result_notes_def)
qed

theorem notes_at_most_six_witness:
  "\<not> valid_scenario cram_plan
   \<and> (\<exists>r. simulate cram_plan = Some r
        \<and> length (notes' r) \<le> 6
        \<and> print_result_notes r = map (\<lambda>n. ''  - '' @ n) (notes' r))"
proof -
  from cram_plan_returns obtain r where r: "simulate cram_plan = Some r" ..
  have "\<not> valid_scenario cram_plan"
    by (simp add: valid_scenario_def cram_plan_def)
  with notes_at_most_six [OF r] r show ?thesis
    by blast
qed

lemma cram_plan_six_notes:
  assumes "simulate cram_plan = Some r"
  shows "length (notes' r) = 6"
  using simulate_SomeD [OF assms] by (simp add: cram_plan_def)

subsection \<open>Monotonicity\<close>







section \<open>The comparator\<close>

text \<open>
  Claim C7. Given fewer than two entries, \<open>compare\<close> raises nothing: it returns, and
  all it has said is the one message asking for at least two scenarios; no best entry
  is computed or named.
\<close>

theorem compare_too_few:
  assumes "length results < 2"
  shows "compare results = Some [''Create at least two scenarios to compare.'']"
  using assms by (simp add: compare_def)

theorem compare_too_few_witness:
  "length [(sample_plan ''A'', sample_scores 70 50 10 30)] < 2
   \<and> compare [(sample_plan ''A'', sample_scores 70 50 10 30)]
       = Some [''Create at least two scenarios to compare.'']"
  using compare_too_few [of "[(sample_plan ''A'', sample_scores 70 50 10 30)]"] by simp

subsection \<open>The scan keeps the first best item\<close>

lemma fold_keeps_best:
  fixes key :: "'a \<Rightarrow> real"
  assumes "\<forall>x \<in> set post. key x \<le> key m"
  shows "fold (\<lambda>item best. if key item > key best then item else best) post m = m"
  using assms by (induction post) auto

lemma fold_stays_below:
  fixes key :: "'a \<Rightarrow> real"
  assumes "key b < v" and "\<forall>x \<in> set pre. key x < v"
  shows "key (fold (\<lambda>item best. if key item > key best then item else best) pre b) < v"
  using assms by (induction pre arbitrary: b) auto

lemma py_max_split:
  assumes "\<forall>x \<in> set pre. key x < key m" and "\<forall>x \<in> set post. key x \<le> key m"
  shows "py_max (pre @ m # post) key = Some m"
proof (cases pre)
  case Nil
  with assms(2) show ?thesis
    by (simp add: py_max_def min_max_def fold_keeps_best)
next
  case (Cons b rest)
  with assms(1) have "key b < key m" and "\<forall>x \<in> set rest. key x < key m"
    by simp_all
  then have "key (fold (\<lambda>item best. if key item > key best then item else best) rest b) < key m"
    by (rule fold_stays_below)
  with assms(2) Cons show ?thesis
    by (simp add: py_max_def min_max_def fold_keeps_best)
qed

lemma py_max_first:
  assumes "first_max_at key xs i"
  shows "py_max xs key = Some (xs ! i)"
proof -
  from assms have i: "i < length xs"
    and le: "\<forall>j < length xs. key (xs ! j) \<le> key (xs ! i)"
    and less: "\<forall>j < i. key (xs ! j) < key (xs ! i)"
    by (simp_all add: first_max_at_def)
  have xs: "xs = take i xs @ xs ! i # drop (Suc i) xs"
    using i by (rule id_take_nth_drop)
  have pre: "\<forall>x \<in> set (take i xs). key x < key (xs ! i)"
    using less i by (auto simp: in_set_conv_nth)
  have post: "\<forall>x \<in> set (drop (Suc i) xs). key x \<le> key (xs ! i)"
    using le by (auto simp: in_set_conv_nth)
  from py_max_split [OF pre post] xs show ?thesis
    by simp
qed

lemma py_min_as_max: "py_min xs key = py_max xs (\<lambda>x. - key x)"
  by (simp add: py_min_def py_max_def min_max_def split: list.split)

lemma first_min_as_max: "first_min_at key xs i \<longleftrightarrow> first_max_at (\<lambda>x. - key x) xs i"
  by (simp add: first_min_at_def first_max_at_def)

lemma py_min_first:
  assumes "first_min_at key xs i"
  shows "py_min xs key = Some (xs ! i)"
  using assms unfolding py_min_as_max first_min_as_max by (rule py_max_first)

text \<open>A list that is not empty has a lowest index of its largest key, and only one.\<close>

lemma first_max_at_exists:
  fixes key :: "'a \<Rightarrow> real"
  assumes "xs \<noteq> []"
  shows "\<exists>i. first_max_at key xs i"
proof -
  define top where "top = Max (key ` set xs)"
  define hit where "hit i \<longleftrightarrow> i < length xs \<and> key (xs ! i) = top" for i
  from assms have "top \<in> key ` set xs"
    unfolding top_def by (intro Max_in) simp_all
  then have "\<exists>i. hit i"
    by (auto simp: hit_def in_set_conv_nth)
  define n where "n = (LEAST i. hit i)"
  from \<open>\<exists>i. hit i\<close> have "hit n"
    unfolding n_def by (rule LeastI_ex)
  then have n: "n < length xs" "key (xs ! n) = top"
    by (simp_all add: hit_def)
  have below: "key (xs ! j) \<le> top" if "j < length xs" for j
    unfolding top_def using that by (intro Max_ge) simp_all
  have strict: "key (xs ! j) < top" if "j < n" for j
  proof -
    from that n(1) have j: "j < length xs"
      by simp
    from that have "\<not> hit j"
      unfolding n_def by (rule not_less_Least)
    with j below [OF j] show ?thesis
      by (simp add: hit_def)
  qed
  from n below strict have "first_max_at key xs n"
    by (simp add: first_max_at_def)
  then show ?thesis ..
qed

lemma first_min_at_exists:
  fixes key :: "'a \<Rightarrow> real"
  assumes "xs \<noteq> []"
  shows "\<exists>i. first_min_at key xs i"
  unfolding first_min_as_max using assms by (rule first_max_at_exists)

lemma first_max_at_unique:
  assumes "first_max_at key xs i" and "first_max_at key xs j"
  shows "i = j"
proof (rule ccontr)
  assume "i \<noteq> j"
  then consider "i < j" | "j < i"
    by linarith
  then show False
  proof cases
    case 1
    with assms have "key (xs ! i) < key (xs ! j)" and "key (xs ! j) \<le> key (xs ! i)"
      by (simp_all add: first_max_at_def)
    then show False
      by simp
  next
    case 2
    with assms have "key (xs ! j) < key (xs ! i)" and "key (xs ! i) \<le> key (xs ! j)"
      by (simp_all add: first_max_at_def)
    then show False
      by simp
  qed
qed

lemma first_min_at_unique:
  assumes "first_min_at key xs i" and "first_min_at key xs j"
  shows "i = j"
  using assms unfolding first_min_as_max by (rule first_max_at_unique)

text \<open>
  Claim C6. Given at least two entries, \<open>compare\<close> names four of them: for
  effectiveness, sustainability and efficiency the entry at the lowest index where the
  score is largest, for burnout risk the entry at the lowest index where it is
  smallest. With effectiveness 70, 90, 90 that is the second entry.
\<close>

theorem compare_first_occurrence:
  assumes "2 \<le> length results"
  shows "\<exists>i j k l.
     first_max_at (\<lambda>x. effectiveness (snd x)) results i
     \<and> first_max_at (\<lambda>x. sustainability (snd x)) results j
     \<and> first_max_at (\<lambda>x. efficiency (snd x)) results k
     \<and> first_min_at (\<lambda>x. burnout_risk (snd x)) results l
     \<and> compare results =
         Some [''Highest effectiveness: '' @ name (fst (results ! i)),
               ''Best sustainability: '' @ name (fst (results ! j)),
               ''Best efficiency: '' @ name (fst (results ! k)),
               ''Lowest burnout risk: '' @ name (fst (results ! l))]"
proof -
  from assms have ne: "results \<noteq> []"
    by auto
  obtain i where i: "first_max_at (\<lambda>x. effectiveness (snd x)) results i"
    using first_max_at_exists [OF ne] by blast
  obtain j where j: "first_max_at (\<lambda>x. sustainability (snd x)) results j"
    using first_max_at_exists [OF ne] by blast
  obtain k where k: "first_max_at (\<lambda>x. efficiency (snd x)) results k"
    using first_max_at_exists [OF ne] by blast
  obtain l where l: "first_min_at (\<lambda>x. burnout_risk (snd x)) results l"
    using first_min_at_exists [OF ne] by blast
  have "compare results =
         Some [''Highest effectiveness: '' @ name (fst (results ! i)),
               ''Best sustainability: '' @ name (fst (results ! j)),
               ''Best efficiency: '' @ name (fst (results ! k)),
               ''Lowest burnout risk: '' @ name (fst (results ! l))]"
    using assms by (simp add: compare_def py_max_first [OF i] py_max_first [OF j]
        py_max_first [OF k] py_min_first [OF l])
  with i j k l show ?thesis
    by blast
qed

theorem compare_first_occurrence_witness:
  "2 \<le> length [(sample_plan ''A'', sample_scores 70 50 10 30),
                (sample_plan ''B'', sample_scores 90 50 20 20),
                (sample_plan ''C'', sample_scores 90 40 30 20)]
   \<and> first_max_at (\<lambda>x. effectiveness (snd x))
        [(sample_plan ''A'', sample_scores 70 50 10 30),
         (sample_plan ''B'', sample_scores 90 50 20 20),
         (sample_plan ''C'', sample_scores 90 40 30 20)] 1
   \<and> compare [(sample_plan ''A'', sample_scores 70 50 10 30),
               (sample_plan ''B'', sample_scores 90 50 20 20),
               (sample_plan ''C'', sample_scores 90 40 30 20)]
       = Some [''Highest effectiveness: B'', ''Best sustainability: A'',
               ''Best efficiency: C'', ''Lowest burnout risk: B'']"
proof -
  define ex where "ex = [(sample_plan ''A'', sample_scores 70 50 10 30),
                (sample_plan ''B'', sample_scores 90 50 20 20),
                (sample_plan ''C'', sample_scores 90 40 30 20)]"
  have len: "2 \<le> length ex"
    by (simp add: ex_def)
  have i1: "first_max_at (\<lambda>x. effectiveness (snd x)) ex 1"
    by (simp add: first_max_at_def ex_def sample_scores_def nth_Cons' less_Suc_eq)
  have j0: "first_max_at (\<lambda>x. sustainability (snd x)) ex 0"
    by (simp add: first_max_at_def ex_def sample_scores_def nth_Cons' less_Suc_eq)
  have k2: "first_max_at (\<lambda>x. efficiency (snd x)) ex 2"
    by (simp add: first_max_at_def ex_def sample_scores_def nth_Cons' less_Suc_eq)
  have l1: "first_min_at (\<lambda>x. burnout_risk (snd x)) ex 1"
    by (simp add: first_min_at_def ex_def sample_scores_def nth_Cons' less_Suc_eq)
  from compare_first_occurrence [OF len] obtain i j k l
    where i: "first_max_at (\<lambda>x. effectiveness (snd x)) ex i"
      and j: "first_max_at (\<lambda>x. sustainability (snd x)) ex j"
      and k: "first_max_at (\<lambda>x. efficiency (snd x)) ex k"
      and l: "first_min_at (\<lambda>x. burnout_risk (snd x)) ex l"
      and out: "compare ex =
         Some [''Highest effectiveness: '' @ name (fst (ex ! i)),
               ''Best sustainability: '' @ name (fst (ex ! j)),
               ''Best efficiency: '' @ name (fst (ex ! k)),
               ''Lowest burnout risk: '' @ name (fst (ex ! l))]"
    by blast
  have "i = 1" "j = 0" "k = 2" "l = 1"
    using first_max_at_unique [OF i i1] first_max_at_unique [OF j j0]
      first_max_at_unique [OF k k2] first_min_at_unique [OF l l1]
    by simp_all
  with out have "compare ex = Some [''Highest effectiveness: B'', ''Best sustainability: A'',
               ''Best efficiency: C'', ''Lowest burnout risk: B'']"
    by (simp add: ex_def sample_plan_def)
  with len i1 show ?thesis
    unfolding ex_def by blast
qed

section \<open>The result cache\<close>

lemma getitem_in_range:
  assumes "1 \<le> number" and "number \<le> int (length xs)"
  shows "getitem xs (number - 1) = Some (xs ! nat (number - 1))"
  using assms by (simp add: getitem_def)

text \<open>
  Claim C8. Let the user pick scenario \<open>number\<close> of the list (between 1 and its
  length) at menu choice 2, and let \<open>simulate\<close> return \<open>r\<close> for it. Then the step
  succeeds, the scenarios are as before, and in the new cache exactly one entry bears
  the name of the chosen scenario, namely that scenario with \<open>r\<close>, while the entries
  of every other name are the ones there were, in their order.
\<close>

theorem cache_last_write_wins:
  assumes "1 \<le> number" and "number \<le> int (length (scenarios st))"
    and "simulate (scenarios st ! nat (number - 1)) = Some r"
  shows "\<exists>st'. run_simulation st number = Some st'
    \<and> scenarios st' = scenarios st
    \<and> [e \<leftarrow> results_cache st'. name (fst e) = name (scenarios st ! nat (number - 1))]
        = [(scenarios st ! nat (number - 1), r)]
    \<and> [e \<leftarrow> results_cache st'. name (fst e) \<noteq> name (scenarios st ! nat (number - 1))]
        = [e \<leftarrow> results_cache st. name (fst e) \<noteq> name (scenarios st ! nat (number - 1))]"
proof -
  from assms(1,2) have "scenarios st \<noteq> []"
    by auto
  then show ?thesis
    using assms(3)
    by (auto simp: run_simulation_def getitem_in_range [OF assms(1,2)] case_prod_unfold
        filter_empty_conv intro!: filter_cong)
qed

theorem cache_last_write_wins_witness:
  "\<exists>r. simulate (sample_plan ''B'') = Some r
     \<and> (\<exists>st'. run_simulation
            \<lparr>scenarios = [sample_plan ''A'', sample_plan ''B''],
             results_cache = [(sample_plan ''B'', sample_scores 1 2 3 4),
                              (sample_plan ''A'', sample_scores 5 6 7 8)]\<rparr> 2 = Some st'
          \<and> scenarios st' = [sample_plan ''A'', sample_plan ''B'']
          \<and> [e \<leftarrow> results_cache st'. name (fst e) = ''B''] = [(sample_plan ''B'', r)]
          \<and> [e \<leftarrow> results_cache st'. name (fst e) \<noteq> ''B'']
              = [(sample_plan ''A'', sample_scores 5 6 7 8)])"
proof -
  from simulate_valid_returns [OF sample_plan_valid]
  obtain r where r: "simulate (sample_plan ''B'') = Some r" ..
  define st where "st = \<lparr>scenarios = [sample_plan ''A'', sample_plan ''B''],
             results_cache = [(sample_plan ''B'', sample_scores 1 2 3 4),
                              (sample_plan ''A'', sample_scores 5 6 7 8)]\<rparr>"
  have "1 \<le> (2::int)" "2 \<le> int (length (scenarios st))"
    and "simulate (scenarios st ! nat (2 - 1)) = Some r"
    using r by (simp_all add: st_def)
  from cache_last_write_wins [OF this] r show ?thesis
    by (simp add: st_def sample_plan_def)
qed

end
